theory Spec2Isabelle
  imports Main "HOL-Library.Word"
begin

section \<open>Go runtime functions used by the logger\<close>

text \<open>
  The engines call a handful of functions of Go's standard library. Each is modelled
  by what it computes on the arguments the repository passes: Go strings are byte
  strings, so \<open>string\<close> (a list of \<open>char\<close>) is the carrier.
\<close>

datatype go_error = OsError | NetError | ContextCanceled | DeadlineExceeded | InvalidEngine

definition newline :: char where
  "newline = CHR 0x0A"

text \<open>\<^verbatim>\<open>strings.HasPrefix\<close>, \<^verbatim>\<open>strings.HasSuffix\<close>, \<^verbatim>\<open>strings.TrimSuffix\<close>.\<close>

definition HasPrefix :: "string \<Rightarrow> string \<Rightarrow> bool" where
  "HasPrefix s p = (length p \<le> length s \<and> take (length p) s = p)"

definition HasSuffix :: "string \<Rightarrow> string \<Rightarrow> bool" where
  "HasSuffix s p = (length p \<le> length s \<and> drop (length s - length p) s = p)"

definition TrimSuffix :: "string \<Rightarrow> string \<Rightarrow> string" where
  "TrimSuffix s p = (if HasSuffix s p then take (length s - length p) s else s)"

text \<open>
  \<^verbatim>\<open>strings.ToLower\<close> on ASCII letters; bytes outside \<open>A..Z\<close> are kept. (The
  repository compares the result with \<^verbatim>\<open>".log"\<close> only, and lower-cases the file
  prefix.)
\<close>

definition toLowerByte :: "char \<Rightarrow> char" where
  "toLowerByte c =
     (case map_of (zip ''ABCDEFGHIJKLMNOPQRSTUVWXYZ'' ''abcdefghijklmnopqrstuvwxyz'') c of
        Some l \<Rightarrow> l
      | None \<Rightarrow> c)"

definition ToLower :: "string \<Rightarrow> string" where
  "ToLower s = map toLowerByte s"

text \<open>Decimal digits of an unsigned number, most significant first.\<close>

definition digitChar :: "nat \<Rightarrow> char" where
  "digitChar d = ''0123456789'' ! d"

fun utod :: "nat \<Rightarrow> string" where
  "utod n = (if n < 10 then [digitChar n] else utod (n div 10) @ [digitChar (n mod 10)])"

declare utod.simps [simp del]

text \<open>\<^verbatim>\<open>strconv.Itoa\<close>: the decimal text of an int, with a minus sign when negative.\<close>

definition Itoa :: "int \<Rightarrow> string" where
  "Itoa i = (if i < 0 then CHR ''-'' # utod (nat (- i)) else utod (nat i))"

text \<open>
  \<^verbatim>\<open>appendInt(b, x, width)\<close> of package time: the sign, then the decimal digits of
  the magnitude, padded with zeros on the left up to \<open>width\<close> digits.
\<close>

definition appendInt :: "int \<Rightarrow> nat \<Rightarrow> string" where
  "appendInt x width =
     (let u = utod (nat \<bar>x\<bar>)
      in (if x < 0 then ''-'' else []) @ replicate (width - length u) (CHR ''0'') @ u)"

subsection \<open>Timestamps and \<^verbatim>\<open>time.Format\<close>\<close>

text \<open>
  A \<^verbatim>\<open>time.Time\<close> is read through its calendar fields (what \<^verbatim>\<open>t.Date()\<close>,
  \<^verbatim>\<open>t.Clock()\<close> and \<^verbatim>\<open>t.Nanosecond()\<close> return in the time's own location).
\<close>

datatype month = January | February | March | April | May | June | July | August
  | September | October | November | December

fun monthNum :: "month \<Rightarrow> nat" where
  "monthNum January = 1" | "monthNum February = 2" | "monthNum March = 3"
| "monthNum April = 4" | "monthNum May = 5" | "monthNum June = 6"
| "monthNum July = 7" | "monthNum August = 8" | "monthNum September = 9"
| "monthNum October = 10" | "monthNum November = 11" | "monthNum December = 12"

fun monthString :: "month \<Rightarrow> string" where
  "monthString January = ''January''" | "monthString February = ''February''"
| "monthString March = ''March''" | "monthString April = ''April''"
| "monthString May = ''May''" | "monthString June = ''June''"
| "monthString July = ''July''" | "monthString August = ''August''"
| "monthString September = ''September''" | "monthString October = ''October''"
| "monthString November = ''November''" | "monthString December = ''December''"

record go_time =
  Year :: int
  Month :: month
  Day :: nat
  Hour :: nat
  Minute :: nat
  Second :: nat
  Nanosecond :: nat

text \<open>
  The layout tokens of \<^verbatim>\<open>time.Format\<close>. \<^verbatim>\<open>nextStdChunk\<close> walks the layout and, at
  each byte, tries the tokens that start with that byte in a fixed order; a byte that
  starts no token is copied to the output. \<open>stdChunkAt\<close> is that test at the head of
  the remaining layout: it returns the literal text before the token (only the token
  \<^verbatim>\<open>_2006\<close> has one), the token, and the layout after it.

  Tokens for the weekday, AM/PM, the time zone, the day of the year and trimmed
  fractions (\<^verbatim>\<open>Mon\<close>, \<^verbatim>\<open>PM\<close>, \<^verbatim>\<open>MST\<close>, \<^verbatim>\<open>-07\<close>, \<^verbatim>\<open>Z07\<close>, \<^verbatim>\<open>002\<close>, \<^verbatim>\<open>.999\<close>) occur in
  no layout of this repository and are not modelled.
\<close>

datatype std_chunk =
    stdLongMonth | stdMonth | stdNumMonth | stdZeroMonth
  | stdDay | stdUnderDay | stdZeroDay
  | stdHour | stdHour12 | stdZeroHour12
  | stdMinute | stdZeroMinute | stdSecond | stdZeroSecond
  | stdLongYear | stdYear
  | stdFracSecond0 char nat

definition startsWithLowerCase :: "string \<Rightarrow> bool" where
  "startsWithLowerCase s =
     (case s of [] \<Rightarrow> False
      | c # _ \<Rightarrow> (of_char (CHR ''a'') :: nat) \<le> of_char c \<and> (of_char c :: nat) \<le> of_char (CHR ''z''))"

definition isDigitByte :: "char \<Rightarrow> bool" where
  "isDigitByte c = ((of_char (CHR ''0'') :: nat) \<le> of_char c \<and> (of_char c :: nat) \<le> of_char (CHR ''9''))"

definition std0x :: "char \<Rightarrow> std_chunk" where
  "std0x c =
     (if c = CHR ''1'' then stdZeroMonth else if c = CHR ''2'' then stdZeroDay
      else if c = CHR ''3'' then stdZeroHour12 else if c = CHR ''4'' then stdZeroMinute
      else if c = CHR ''5'' then stdZeroSecond else stdYear)"

definition stdChunkAt :: "string \<Rightarrow> (string \<times> std_chunk \<times> string) option" where
  "stdChunkAt l =
     (case l of [] \<Rightarrow> None
      | c # _ \<Rightarrow>
        if c = CHR ''J'' then
          (if HasPrefix l ''Jan'' then
             (if HasPrefix l ''January'' then Some ([], stdLongMonth, drop 7 l)
              else if \<not> startsWithLowerCase (drop 3 l) then Some ([], stdMonth, drop 3 l)
              else None)
           else None)
        else if c = CHR ''0'' then
          (if 2 \<le> length l \<and> l ! 1 \<in> set ''123456'' then Some ([], std0x (l ! 1), drop 2 l)
           else None)
        else if c = CHR ''1'' then
          (if HasPrefix l ''15'' then Some ([], stdHour, drop 2 l)
           else Some ([], stdNumMonth, drop 1 l))
        else if c = CHR ''2'' then
          (if HasPrefix l ''2006'' then Some ([], stdLongYear, drop 4 l)
           else Some ([], stdDay, drop 1 l))
        else if c = CHR ''_'' then
          (if HasPrefix l ''_2'' then
             (if HasPrefix l ''_2006'' then Some (''_'', stdLongYear, drop 5 l)
              else Some ([], stdUnderDay, drop 2 l))
           else None)
        else if c = CHR ''3'' then Some ([], stdHour12, drop 1 l)
        else if c = CHR ''4'' then Some ([], stdMinute, drop 1 l)
        else if c = CHR ''5'' then Some ([], stdSecond, drop 1 l)
        else if (c = CHR ''.'' \<or> c = CHR '','') \<and> 2 \<le> length l \<and> l ! 1 = CHR ''0'' then
          (let n = length (takeWhile (\<lambda>x. x = CHR ''0'') (tl l));
               rest = drop (Suc n) l
           in if rest \<noteq> [] \<and> isDigitByte (hd rest) then None
              else Some ([], stdFracSecond0 c n, rest))
        else None)"

fun appendStd :: "std_chunk \<Rightarrow> go_time \<Rightarrow> string" where
  "appendStd stdLongMonth t = monthString (Month t)"
| "appendStd stdMonth t = take 3 (monthString (Month t))"
| "appendStd stdNumMonth t = appendInt (int (monthNum (Month t))) 0"
| "appendStd stdZeroMonth t = appendInt (int (monthNum (Month t))) 2"
| "appendStd stdDay t = appendInt (int (Day t)) 0"
| "appendStd stdUnderDay t = (if Day t < 10 then '' '' else []) @ appendInt (int (Day t)) 0"
| "appendStd stdZeroDay t = appendInt (int (Day t)) 2"
| "appendStd stdHour t = appendInt (int (Hour t)) 2"
| "appendStd stdHour12 t =
     appendInt (int (if Hour t mod 12 = 0 then 12 else Hour t mod 12)) 0"
| "appendStd stdZeroHour12 t =
     appendInt (int (if Hour t mod 12 = 0 then 12 else Hour t mod 12)) 2"
| "appendStd stdMinute t = appendInt (int (Minute t)) 0"
| "appendStd stdZeroMinute t = appendInt (int (Minute t)) 2"
| "appendStd stdSecond t = appendInt (int (Second t)) 0"
| "appendStd stdZeroSecond t = appendInt (int (Second t)) 2"
| "appendStd stdLongYear t = appendInt (Year t) 4"
| "appendStd stdYear t = appendInt (\<bar>Year t\<bar> mod 100) 2"
| "appendStd (stdFracSecond0 sep n) t =
     sep # take n (appendInt (int (Nanosecond t)) 9)"

lemma stdChunkAt_shorter:
  assumes "stdChunkAt l = Some (pre, tok, rest)"
  shows "length rest < length l"
proof (cases l)
  case Nil
  with assms show ?thesis by (simp add: stdChunkAt_def)
next
  case (Cons c cs)
  have "\<exists>k. rest = drop (Suc k) l"
    using assms unfolding stdChunkAt_def Cons list.case Let_def
    by (simp split: if_split_asm; metis drop0 drop_Suc tl_drop numeral_2_eq_2)
  then show ?thesis using Cons by auto
qed

function Format :: "string \<Rightarrow> go_time \<Rightarrow> string" where
  "Format layout t =
     (if layout = [] then []
      else (case stdChunkAt layout of
              Some (pre, tok, suffix) \<Rightarrow> pre @ appendStd tok t @ Format suffix t
            | None \<Rightarrow> hd layout # Format (tl layout) t))"
  by pat_completeness auto
termination
proof (relation "measure (\<lambda>(layout, t). length layout)")
  show "wf (measure (\<lambda>(layout, t). length layout))" by simp
next
  fix layout :: string and t :: go_time and x2 x y x2a xa ya
  assume "layout \<noteq> []" "stdChunkAt layout = Some x2" "(x, y) = x2" "(xa, ya) = y"
  then have "stdChunkAt layout = Some (x, xa, ya)" by simp
  then have "length ya < length layout" by (rule stdChunkAt_shorter)
  then show "((ya, t), layout, t) \<in> measure (\<lambda>(layout, t). length layout)" by simp
next
  fix layout :: string and t :: go_time
  assume "layout \<noteq> []" "stdChunkAt layout = None"
  then show "((tl layout, t), layout, t) \<in> measure (\<lambda>(layout, t). length layout)"
    by (cases layout) simp_all
qed

declare Format.simps [simp del]


section \<open>Environment of the constructors\<close>

text \<open>
  Both \<^verbatim>\<open>NewEngine\<close> functions ask the operating system for the executable, the
  host name, the process id and the working directory, and normalise paths with
  package \<^verbatim>\<open>filepath\<close>. These calls are parameters of the model: a record holds
  what each of them returns.
\<close>

record os_env =
  os_Executable :: "go_error + string"
  os_Getwd :: "go_error + string"
  os_Hostname :: string
  os_Getpid :: int
  filepath_Base :: "string \<Rightarrow> string"
  filepath_Ext :: "string \<Rightarrow> string"
  filepath_ToSlash :: "string \<Rightarrow> string"
  filepath_IsAbs :: "string \<Rightarrow> bool"
  filepath_Join :: "string \<Rightarrow> string \<Rightarrow> string"
  filepath_Clean :: "string \<Rightarrow> string"
  filepath_Separator :: char

text \<open>
  The default name of both constructors: the base name of the executable without its
  extension (the extension is kept when it is the whole name).
\<close>

definition executableBaseName :: "os_env \<Rightarrow> go_error + string" where
  "executableBaseName env =
     (case os_Executable env of
        Inl err \<Rightarrow> Inl err
      | Inr path \<Rightarrow>
          (let name = filepath_Base env path;
               extLen = length (filepath_Ext env name)
           in Inr (if length name > extLen then take (length name - extLen) name else name)))"

section \<open>The syslog engine\<close>

definition severityError :: int where "severityError = 3"
definition severityWarning :: int where "severityWarning = 4"
definition severityInformational :: int where "severityInformational = 6"
definition severityDebug :: int where "severityDebug = 7"
definition facilityUser :: int where "facilityUser = 1"
definition defaultMaxMessageQueueSize :: nat where "defaultMaxMessageQueueSize = 1024"

datatype tls_config = TlsCfg (MinVersion: nat)

record syslog_Options =
  AppName :: string
  Host :: string
  Port :: "16 word"
  UseTcp :: bool
  UseTls :: bool
  UseRFC5424 :: bool
  MaxMessageQueueSize :: nat
  TlsConfig :: "tls_config option"

text \<open>
  The worker's context is active or cancelled; the cancel function is a value that is
  present until \<^verbatim>\<open>Destroy\<close> sets it to nil. \<open>conn\<close> holds the identity of the open
  connection, \<open>shutdownOnce\<close> whether the \<^verbatim>\<open>sync.Once\<close> has run, \<open>wg\<close> the counter
  of the wait group, \<open>queueAvailEv\<close> whether the auto-reset event is set.
\<close>

datatype ctx_state = CtxActive | CtxCanceled

datatype cancel_func = CancelFunc

record syslog_engine =
  conn :: "nat option"
  appName :: string
  serverAddress :: string
  useTcp :: bool
  tlsConfig :: "tls_config option"
  useRFC5424 :: bool
  hostname :: string
  pid :: int
  queue :: "string list"
  queueAvailEv :: bool
  maxQueueSize :: nat
  shutdownOnce :: bool
  wg :: nat
  workerCtx :: "ctx_state option"
  workerCancelCtx :: "cancel_func option"

definition syslog_NewEngine :: "os_env \<Rightarrow> syslog_Options \<Rightarrow> go_error + syslog_engine" where
  "syslog_NewEngine env opts =
     (case (if length (AppName opts) = 0 then executableBaseName env else Inr (AppName opts)) of
        Inl err \<Rightarrow> Inl err
      | Inr name \<Rightarrow>
          (let port = (if Port opts = 0
                       then (if UseTcp opts then (if UseTls opts then 6514 else 1468) else 514)
                       else Port opts)
           in Inr \<lparr> conn = None,
                    appName = name,
                    serverAddress =
                      (if length (Host opts) > 0 then Host opts else ''127.0.0.1'')
                      @ '':'' @ Itoa (uint port),
                    useTcp = UseTcp opts,
                    tlsConfig =
                      (if UseTls opts
                       then (case TlsConfig opts of Some c \<Rightarrow> Some c | None \<Rightarrow> Some (TlsCfg 2))
                       else None),
                    useRFC5424 = UseRFC5424 opts,
                    hostname = os_Hostname env,
                    pid = os_Getpid env,
                    queue = [],
                    queueAvailEv = False,
                    maxQueueSize =
                      (if MaxMessageQueueSize opts = 0 then defaultMaxMessageQueueSize
                       else MaxMessageQueueSize opts),
                    shutdownOnce = False,
                    wg = 1,
                    workerCtx = Some CtxActive,
                    workerCancelCtx = Some CancelFunc \<rparr>))"

subsection \<open>The message queue\<close>

text \<open>
  \<^verbatim>\<open>queueMessage\<close>: when the queue holds more than \<open>maxQueueSize\<close> messages the front
  one is removed; the message is pushed at the back and the event is set.
\<close>

definition queueMessage :: "syslog_engine \<Rightarrow> string \<Rightarrow> syslog_engine" where
  "queueMessage lg msg =
     (let q = (if length (queue lg) > maxQueueSize lg
               then (case queue lg of [] \<Rightarrow> [] | elem # rest \<Rightarrow> rest)
               else queue lg)
      in lg\<lparr> queue := q @ [msg], queueAvailEv := True \<rparr>)"

definition dequeueMessage :: "syslog_engine \<Rightarrow> (string \<times> bool) \<times> syslog_engine" where
  "dequeueMessage lg =
     (case queue lg of
        [] \<Rightarrow> (([], False), lg)
      | elem # rest \<Rightarrow> ((elem, True), lg\<lparr> queue := rest \<rparr>))"

text \<open>A run of enqueue operations, the first message of the list first.\<close>

definition enqueueAll :: "syslog_engine \<Rightarrow> string list \<Rightarrow> syslog_engine" where
  "enqueueAll lg msgs = fold (\<lambda>msg lg'. queueMessage lg' msg) msgs lg"

subsection \<open>The formatter\<close>

definition writeString ::
  "syslog_engine \<Rightarrow> int \<Rightarrow> int \<Rightarrow> go_time \<Rightarrow> string \<Rightarrow> bool \<Rightarrow> syslog_engine" where
  "writeString lg facility severity now msg raw =
     (let priority = (facility * 8) + severity;
          msg' = (if useTcp lg
                  then (if \<not> HasSuffix msg [newline] then msg @ [newline] else msg)
                  else TrimSuffix msg [newline])
      in if \<not> useRFC5424 lg
         then queueMessage lg
                (''<'' @ Itoa priority @ ''>'' @ Format ''Jan _2 15:04:05'' now @ '' '' @
                 hostname lg @ '' '' @ msg')
         else queueMessage lg
                (''<'' @ Itoa priority @ ''>1 '' @ Format ''2006-02-01T15:04:05Z'' now @ '' '' @
                 hostname lg @ '' '' @ appName lg @ '' '' @ Itoa (pid lg) @ '' - - '' @ msg'))"

definition syslog_Success ::
  "syslog_engine \<Rightarrow> go_time \<Rightarrow> string \<Rightarrow> bool \<Rightarrow> bool \<Rightarrow> syslog_engine" where
  "syslog_Success lg now msg raw sendSuccessAtErrorLogLevel =
     (if sendSuccessAtErrorLogLevel
      then writeString lg facilityUser severityError now msg raw
      else writeString lg facilityUser severityInformational now msg raw)"

definition syslog_Error :: "syslog_engine \<Rightarrow> go_time \<Rightarrow> string \<Rightarrow> bool \<Rightarrow> syslog_engine" where
  "syslog_Error lg now msg raw = writeString lg facilityUser severityError now msg raw"

definition syslog_Warning :: "syslog_engine \<Rightarrow> go_time \<Rightarrow> string \<Rightarrow> bool \<Rightarrow> syslog_engine" where
  "syslog_Warning lg now msg raw = writeString lg facilityUser severityWarning now msg raw"

definition syslog_Info :: "syslog_engine \<Rightarrow> go_time \<Rightarrow> string \<Rightarrow> bool \<Rightarrow> syslog_engine" where
  "syslog_Info lg now msg raw = writeString lg facilityUser severityInformational now msg raw"

definition syslog_Debug :: "syslog_engine \<Rightarrow> go_time \<Rightarrow> string \<Rightarrow> bool \<Rightarrow> syslog_engine" where
  "syslog_Debug lg now msg raw = writeString lg facilityUser severityDebug now msg raw"

text \<open>The payload a call has just put on the queue, and its run of trailing newlines.\<close>

definition lastQueued :: "syslog_engine \<Rightarrow> string" where
  "lastQueued lg = (case rev (queue lg) of [] \<Rightarrow> [] | m # _ \<Rightarrow> m)"

definition trailingNewlines :: "string \<Rightarrow> nat" where
  "trailingNewlines s = length (takeWhile (\<lambda>c. c = newline) (rev s))"


subsection \<open>The connection and the shutdown\<close>

text \<open>
  The network is the environment of the engine: \<open>net_reply\<close> gives the outcome of the
  k-th dial or write (\<open>None\<close> is success), \<open>net_calls\<close> counts them, and \<open>net_log\<close>
  records every dial, write and close in order. A successful dial yields a new
  connection, named by the number of the call that opened it. Every call carries the
  context it runs under: the worker's, or the one \<^verbatim>\<open>flushQueue\<close> creates with its
  deadline.

  A call through a nil function value or a nil interface is a run-time panic; the
  functions that can reach one return \<open>Inl\<close> of it.
\<close>

datatype go_panic = NilDereference | TypeAssertion

datatype go_ctx = WorkerCtx | FlushCtx

datatype net_op = NetDial go_ctx bool string string | NetWrite nat string | NetClose nat

record net_world =
  net_reply :: "nat \<Rightarrow> go_error option"
  net_calls :: nat
  net_log :: "net_op list"

definition DialContext ::
  "go_ctx \<Rightarrow> bool \<Rightarrow> string \<Rightarrow> string \<Rightarrow> net_world \<Rightarrow> (nat option \<times> go_error option) \<times> net_world" where
  "DialContext ctx tls network address w =
     (let err = net_reply w (net_calls w);
          w' = w\<lparr> net_calls := Suc (net_calls w),
                  net_log := net_log w @ [NetDial ctx tls network address] \<rparr>
      in ((case err of None \<Rightarrow> Some (net_calls w) | Some e \<Rightarrow> None, err), w'))"

definition connWrite :: "nat \<Rightarrow> string \<Rightarrow> net_world \<Rightarrow> go_error option \<times> net_world" where
  "connWrite c b w =
     (net_reply w (net_calls w),
      w\<lparr> net_calls := Suc (net_calls w), net_log := net_log w @ [NetWrite c b] \<rparr>)"

definition disconnect :: "syslog_engine \<Rightarrow> net_world \<Rightarrow> syslog_engine \<times> net_world" where
  "disconnect lg w =
     (case conn lg of
        Some c \<Rightarrow> (lg\<lparr> conn := None \<rparr>, w\<lparr> net_log := net_log w @ [NetClose c] \<rparr>)
      | None \<Rightarrow> (lg, w))"

definition connect ::
  "go_ctx \<Rightarrow> syslog_engine \<Rightarrow> net_world \<Rightarrow> go_error option \<times> syslog_engine \<times> net_world" where
  "connect ctx lg w =
     (case disconnect lg w of (lg1, w1) \<Rightarrow>
        (case (if useTcp lg1
               then (if tlsConfig lg1 \<noteq> None
                     then DialContext ctx True ''tcp'' (serverAddress lg1) w1
                     else DialContext ctx False ''tcp'' (serverAddress lg1) w1)
               else DialContext ctx False ''udp'' (serverAddress lg1) w1) of
           ((c, err), w2) \<Rightarrow> (err, lg1\<lparr> conn := c \<rparr>, w2)))"

definition writeBytes ::
  "go_ctx \<Rightarrow> syslog_engine \<Rightarrow> net_world \<Rightarrow> string
     \<Rightarrow> go_panic + (go_error option \<times> syslog_engine \<times> net_world)" where
  "writeBytes ctx lg w b =
     (case (case conn lg of
              Some c \<Rightarrow> (case connWrite c b w of (err, w') \<Rightarrow> (err = None, w'))
            | None \<Rightarrow> (False, w)) of
        (sent, w0) \<Rightarrow>
          if sent then Inr (None, lg, w0)
          else (case connect ctx lg w0 of (err, lg1, w1) \<Rightarrow>
                  (if err = None
                   then (case conn lg1 of
                           None \<Rightarrow> Inl NilDereference
                         | Some c \<Rightarrow>
                             (case connWrite c b w1 of (err2, w2) \<Rightarrow>
                                (if err2 \<noteq> None
                                 then (case disconnect lg1 w2 of (lg2, w3) \<Rightarrow> Inr (err2, lg2, w3))
                                 else Inr (err2, lg1, w2))))
                   else Inr (err, lg1, w1))))"

lemma queue_disconnect: "disconnect lg w = (lg', w') \<Longrightarrow> queue lg' = queue lg"
  by (auto simp: disconnect_def split: option.splits)

lemma queue_connect: "connect ctx lg w = (err, lg', w') \<Longrightarrow> queue lg' = queue lg"
  by (auto simp: connect_def split: prod.splits if_splits dest: queue_disconnect)

lemma queue_writeBytes:
  assumes "writeBytes ctx lg w b = Inr (err, lg', w')"
  shows "queue lg' = queue lg"
proof -
  obtain sent w0 where s: "(case conn lg of
              Some c \<Rightarrow> (case connWrite c b w of (err, w') \<Rightarrow> (err = None, w'))
            | None \<Rightarrow> (False, w)) = (sent, w0)"
    by (cases "(case conn lg of
              Some c \<Rightarrow> (case connWrite c b w of (err, w') \<Rightarrow> (err = None, w'))
            | None \<Rightarrow> (False, w))") auto
  obtain e1 lg1 w1 where c: "connect ctx lg w0 = (e1, lg1, w1)"
    by (cases "connect ctx lg w0") auto
  then have q1: "queue lg1 = queue lg" by (rule queue_connect)
  show ?thesis
  proof (cases sent)
    case True
    with assms s show ?thesis by (simp add: writeBytes_def)
  next
    case False
    show ?thesis
    proof (cases "e1 = None")
      case e: False
      with assms s c False q1 show ?thesis by (auto simp: writeBytes_def)
    next
      case e: True
      show ?thesis
      proof (cases "conn lg1")
        case None
        with assms s c False e show ?thesis by (simp add: writeBytes_def)
      next
        case (Some k)
        obtain e2 w2 where cw: "connWrite k b w1 = (e2, w2)" by (cases "connWrite k b w1") auto
        obtain lg2 w3 where d: "disconnect lg1 w2 = (lg2, w3)" by (cases "disconnect lg1 w2") auto
        then have "queue lg2 = queue lg1" by (rule queue_disconnect)
        with assms s c False e Some cw d q1 show ?thesis
          by (auto simp: writeBytes_def split: if_splits)
      qed
    qed
  qed
qed

function flushQueue :: "syslog_engine \<Rightarrow> net_world \<Rightarrow> go_panic + (syslog_engine \<times> net_world)" where
  "flushQueue lg w =
     (case queue lg of
        [] \<Rightarrow> Inr (lg, w)
      | elem # rest \<Rightarrow>
          (case writeBytes FlushCtx (lg\<lparr> queue := rest \<rparr>) w elem of
             Inl p \<Rightarrow> Inl p
           | Inr (err, lg', w') \<Rightarrow> if err \<noteq> None then Inr (lg', w') else flushQueue lg' w'))"
  by pat_completeness auto
termination
proof (relation "measure (\<lambda>(lg, w). length (queue lg))")
  show "wf (measure (\<lambda>(lg, w). length (queue lg)))" by simp
next
  fix lg :: syslog_engine and w :: net_world and elem rest r err p lg' w'
  assume q: "queue lg = elem # rest"
    and wb: "writeBytes FlushCtx (lg\<lparr>queue := rest\<rparr>) w elem = Inr r"
    and r: "(err, p) = r" "(lg', w') = p"
  from wb r have "writeBytes FlushCtx (lg\<lparr>queue := rest\<rparr>) w elem = Inr (err, lg', w')" by simp
  then have "queue lg' = rest" by (simp add: queue_writeBytes)
  with q show "((lg', w'), lg, w) \<in> measure (\<lambda>(lg, w). length (queue lg))" by simp
qed

declare flushQueue.simps [simp del]

text \<open>
  \<^verbatim>\<open>Destroy\<close> runs its body once. The body cancels the worker's context and waits for
  the worker: the model starts from the state the worker has left when it exits, so
  the wait is the counter of the wait group going to zero.
\<close>

definition syslog_Destroy ::
  "syslog_engine \<Rightarrow> net_world \<Rightarrow> go_panic + (syslog_engine \<times> net_world)" where
  "syslog_Destroy lg w =
     (if shutdownOnce lg then Inr (lg, w)
      else (case workerCancelCtx lg of
              None \<Rightarrow> Inl NilDereference
            | Some cancel \<Rightarrow>
                (let lg1 = lg\<lparr> workerCtx := map_option (\<lambda>c. CtxCanceled) (workerCtx lg) \<rparr>;
                     lg2 = lg1\<lparr> wg := 0 \<rparr>;
                     lg3 = lg2\<lparr> workerCtx := None, workerCancelCtx := None \<rparr>
                 in (case flushQueue lg3 w of
                       Inl p \<Rightarrow> Inl p
                     | Inr (lg4, w4) \<Rightarrow>
                         (case disconnect lg4 w4 of
                            (lg5, w5) \<Rightarrow> Inr (lg5\<lparr> shutdownOnce := True \<rparr>, w5))))))"


section \<open>The file engine\<close>

definition minFileSize :: int where "minFileSize = 10 * 1024"
definition minFileVaultSize :: int where "minFileVaultSize = 100 * 1024"
definition MaxInt64 :: int where "MaxInt64 = 2 ^ 63 - 1"

text \<open>The line ending of the build in \<^verbatim>\<open>file_freebsd.go\<close>.\<close>

definition newLine :: string where "newLine = [newline]"
definition newLineLen :: int where "newLineLen = 1"

text \<open>
  \<^verbatim>\<open>MaxFileSize\<close> and \<^verbatim>\<open>MaxFileVaultSize\<close> are \<^verbatim>\<open>uint64\<close>; the engine keeps them as
  \<^verbatim>\<open>int64\<close> after a guarded conversion. The \<^verbatim>\<open>int64\<close> fields and the sizes of files
  are integers; \<^verbatim>\<open>uint\<close> fields that are only compared are natural numbers.
\<close>

record file_Options =
  Prefix :: string
  Directory :: string
  DaysToKeep :: nat
  MaxFileSize :: "64 word"
  MaxFileVaultSize :: "64 word"

record file_engine =
  fd :: "nat option"
  lastWasError :: int
  directory :: string
  daysToKeep :: nat
  maxFileSize :: int
  maxFileVaultSize :: int
  prefix :: string
  subFileIndex :: int
  dayOfFile :: int
  currentFileSize :: int
  currentFileVaultSize :: int

subsection \<open>The file system\<close>

text \<open>
  The file system and the clock are the environment: \<open>fs_reply\<close> gives the outcome of
  the k-th call (\<open>None\<close> is success), \<open>fs_listing\<close> what a successful \<^verbatim>\<open>os.ReadDir\<close>
  returns at that call, \<open>fs_clock\<close> what \<^verbatim>\<open>time.Now()\<close> returns at that call (an
  instant, in nanoseconds since the epoch). \<open>fs_log\<close> records the calls in order. A
  file opened by the k-th call is named by k. An entry of a listing carries what
  \<^verbatim>\<open>Name()\<close>, \<^verbatim>\<open>IsDir()\<close> and \<^verbatim>\<open>Info()\<close> return for it, the creation time as
  \<^verbatim>\<open>getFileCreationTime\<close> reads it.
\<close>

record file_info =
  info_Size :: int
  info_CreationTime :: int

record dir_entry =
  entry_Name :: string
  entry_IsDir :: bool
  entry_Info :: "go_error + file_info"

datatype fs_op =
    FsReadDir string | FsNow | FsRemove string | FsMkdirAll string | FsOpenFile string
  | FsWriteString nat string | FsSync nat | FsClose nat

record fs_world =
  fs_reply :: "nat \<Rightarrow> go_error option"
  fs_listing :: "nat \<Rightarrow> dir_entry list"
  fs_clock :: "nat \<Rightarrow> int"
  fs_calls :: nat
  fs_log :: "fs_op list"

definition fs_call :: "fs_op \<Rightarrow> fs_world \<Rightarrow> fs_world" where
  "fs_call op w = w\<lparr> fs_calls := Suc (fs_calls w), fs_log := fs_log w @ [op] \<rparr>"

definition ReadDir :: "string \<Rightarrow> fs_world \<Rightarrow> (go_error + dir_entry list) \<times> fs_world" where
  "ReadDir name w =
     ((case fs_reply w (fs_calls w) of
         Some err \<Rightarrow> Inl err
       | None \<Rightarrow> Inr (fs_listing w (fs_calls w))),
      fs_call (FsReadDir name) w)"

definition time_Now :: "fs_world \<Rightarrow> int \<times> fs_world" where
  "time_Now w = (fs_clock w (fs_calls w), fs_call FsNow w)"

definition Remove :: "string \<Rightarrow> fs_world \<Rightarrow> go_error option \<times> fs_world" where
  "Remove name w = (fs_reply w (fs_calls w), fs_call (FsRemove name) w)"

definition MkdirAll :: "string \<Rightarrow> fs_world \<Rightarrow> go_error option \<times> fs_world" where
  "MkdirAll name w = (fs_reply w (fs_calls w), fs_call (FsMkdirAll name) w)"

definition OpenFile :: "string \<Rightarrow> fs_world \<Rightarrow> (nat option \<times> go_error option) \<times> fs_world" where
  "OpenFile name w =
     (let err = fs_reply w (fs_calls w)
      in ((case err of None \<Rightarrow> Some (fs_calls w) | Some e \<Rightarrow> None, err),
          fs_call (FsOpenFile name) w))"

text \<open>A method of a nil \<^verbatim>\<open>*os.File\<close> returns an error and does nothing.\<close>

definition WriteString :: "nat option \<Rightarrow> string \<Rightarrow> fs_world \<Rightarrow> go_error option \<times> fs_world" where
  "WriteString f s w =
     (case f of
        None \<Rightarrow> (Some OsError, w)
      | Some h \<Rightarrow> (fs_reply w (fs_calls w), fs_call (FsWriteString h s) w))"

definition nanosecondsPerDay :: int where
  "nanosecondsPerDay = 24 * 60 * 60 * 1000000000"

subsection \<open>Purging the vault\<close>

record LogFile =
  Name :: string
  FileSize :: int
  CreatedAt :: int

fun filterFiles :: "dir_entry list \<Rightarrow> LogFile list" where
  "filterFiles [] = []"
| "filterFiles (f # files) =
     (if entry_IsDir f then filterFiles files
      else (let filename = entry_Name f;
                filenameLen = length filename
            in if filenameLen < 4 \<or> ToLower (drop (filenameLen - 4) filename) \<noteq> ''.log''
               then filterFiles files
               else (case entry_Info f of
                       Inl err \<Rightarrow> filterFiles files
                     | Inr fi \<Rightarrow>
                         \<lparr> Name = filename, FileSize = info_Size fi,
                           CreatedAt = info_CreationTime fi \<rparr> # filterFiles files)))"

text \<open>
  The loops of \<^verbatim>\<open>purgeFileVault\<close>, on the sorted list. Each reads an element only
  under its own bound check, so no index is out of range.
\<close>

function findCutPoint :: "LogFile list \<Rightarrow> int \<Rightarrow> nat \<Rightarrow> nat" where
  "findCutPoint files lowestTime deleteUntilIndex =
     (if deleteUntilIndex < length files
      then (if \<not> CreatedAt (files ! deleteUntilIndex) < lowestTime then deleteUntilIndex
            else findCutPoint files lowestTime (deleteUntilIndex + 1))
      else deleteUntilIndex)"
  by pat_completeness auto
termination
  by (relation "measure (\<lambda>(files, lowestTime, i). length files - i)") auto

declare findCutPoint.simps [simp del]

function sumSizesFrom :: "LogFile list \<Rightarrow> nat \<Rightarrow> int \<Rightarrow> int" where
  "sumSizesFrom files idx fileVaultSize =
     (if idx < length files
      then sumSizesFrom files (idx + 1) (fileVaultSize + FileSize (files ! idx))
      else fileVaultSize)"
  by pat_completeness auto
termination
  by (relation "measure (\<lambda>(files, idx, s). length files - idx)") auto

declare sumSizesFrom.simps [simp del]

function freeSpace :: "LogFile list \<Rightarrow> int \<Rightarrow> nat \<Rightarrow> int \<Rightarrow> nat \<times> int" where
  "freeSpace files requiredMaxSize deleteUntilIndex fileVaultSize =
     (if deleteUntilIndex < length files \<and> fileVaultSize > requiredMaxSize
      then freeSpace files requiredMaxSize (deleteUntilIndex + 1)
             (fileVaultSize - FileSize (files ! deleteUntilIndex))
      else (deleteUntilIndex, fileVaultSize))"
  by pat_completeness auto
termination
  by (relation "measure (\<lambda>(files, r, i, s). length files - i)") auto

declare freeSpace.simps [simp del]

function removeFiles :: "string \<Rightarrow> LogFile list \<Rightarrow> nat \<Rightarrow> nat \<Rightarrow> fs_world \<Rightarrow> fs_world" where
  "removeFiles dir files deleteUntilIndex idx w =
     (if idx < deleteUntilIndex
      then removeFiles dir files deleteUntilIndex (idx + 1)
             (snd (Remove (dir @ Name (files ! idx)) w))
      else w)"
  by pat_completeness auto
termination
  by (relation "measure (\<lambda>(dir, files, d, idx, w). d - idx)") auto

declare removeFiles.simps [simp del]

text \<open>
  \<^verbatim>\<open>slices.SortFunc\<close> orders the files by creation time; the order it gives to files
  of equal creation time is not specified, and the model takes the one of a stable
  sort. \<^verbatim>\<open>AddDate(0, 0, -n)\<close> on a UTC time moves it back by n days of 24 hours.
\<close>

definition purgeFileVault :: "file_engine \<Rightarrow> fs_world \<Rightarrow> (int \<times> go_error option) \<times> fs_world" where
  "purgeFileVault lg w =
     (if daysToKeep lg = 0 \<and> maxFileVaultSize lg = 0 then ((0, None), w)
      else (case ReadDir (directory lg) w of
              (Inl err, w1) \<Rightarrow> ((0, Some err), w1)
            | (Inr files, w1) \<Rightarrow>
                (let filteredFiles = sort_key CreatedAt (filterFiles files);
                     (deleteUntilIndex, w2) =
                       (if daysToKeep lg > 0
                        then (case time_Now w1 of
                                (now, w') \<Rightarrow>
                                  (findCutPoint filteredFiles
                                     (now - int (daysToKeep lg) * nanosecondsPerDay) 0, w'))
                        else (0, w1));
                     fileVaultSize = sumSizesFrom filteredFiles deleteUntilIndex 0;
                     (deleteUntilIndex', fileVaultSize') =
                       (if maxFileVaultSize lg > 0
                        then freeSpace filteredFiles (maxFileVaultSize lg - minFileSize)
                               deleteUntilIndex fileVaultSize
                        else (deleteUntilIndex, fileVaultSize));
                     w3 = removeFiles (directory lg) filteredFiles deleteUntilIndex' 0 w2
                 in ((fileVaultSize', None), w3))))"

subsection \<open>Construction, rotation and writing\<close>

definition file_NewEngine ::
  "os_env \<Rightarrow> file_Options \<Rightarrow> fs_world \<Rightarrow> go_error + (file_engine \<times> fs_world)" where
  "file_NewEngine env opts w =
     (case (if length (Prefix opts) = 0 then executableBaseName env else Inr (Prefix opts)) of
        Inl err \<Rightarrow> Inl err
      | Inr name \<Rightarrow>
          (let dir0 = (if length (Directory opts) > 0 then filepath_ToSlash env (Directory opts)
                       else ''logs'')
           in (case (if \<not> filepath_IsAbs env dir0
                     then (case os_Getwd env of
                             Inl err \<Rightarrow> Inl err
                           | Inr workingDir \<Rightarrow> Inr (filepath_Join env workingDir dir0))
                     else Inr dir0) of
                 Inl err \<Rightarrow> Inl err
               | Inr dir1 \<Rightarrow>
                   (let dir2 = filepath_Clean env dir1;
                        dir3 = (if \<not> HasSuffix dir2 [filepath_Separator env]
                                then dir2 @ [filepath_Separator env] else dir2);
                        fileSize =
                          (if MaxFileSize opts > 0
                           then (if uint (MaxFileSize opts) > MaxInt64 then MaxInt64
                                 else if uint (MaxFileSize opts) < minFileSize then minFileSize
                                 else uint (MaxFileSize opts))
                           else 0);
                        vaultSize =
                          (if MaxFileVaultSize opts > 0
                           then (let v = (if uint (MaxFileVaultSize opts) > MaxInt64 then MaxInt64
                                          else if uint (MaxFileVaultSize opts) < minFileVaultSize
                                          then minFileVaultSize
                                          else uint (MaxFileVaultSize opts))
                                 in if v < fileSize then fileSize else v)
                           else 0);
                        lg = \<lparr> fd = None, lastWasError = 0, directory = dir3,
                               daysToKeep = (if DaysToKeep opts < 365 then DaysToKeep opts else 365),
                               maxFileSize = fileSize, maxFileVaultSize = vaultSize,
                               prefix = name, subFileIndex = 0, dayOfFile = - 1,
                               currentFileSize = 0, currentFileVaultSize = 0 \<rparr>
                    in (case purgeFileVault lg w of
                          ((sz, err), w') \<Rightarrow> Inr (lg\<lparr> currentFileVaultSize := sz \<rparr>, w'))))))"

definition file_Destroy :: "file_engine \<Rightarrow> fs_world \<Rightarrow> file_engine \<times> fs_world" where
  "file_Destroy lg w =
     (case fd lg of
        Some h \<Rightarrow> (lg\<lparr> fd := None \<rparr>, fs_call (FsClose h) (fs_call (FsSync h) w))
      | None \<Rightarrow> (lg, w))"

text \<open>\<^verbatim>\<open>fmt.Sprintf("%03d", n)\<close>: zeros up to a width of three, the sign included.\<close>

definition Sprintf03d :: "int \<Rightarrow> string" where
  "Sprintf03d n = (if n < 0 then appendInt n 2 else appendInt n 3)"

definition logFileName :: "file_engine \<Rightarrow> go_time \<Rightarrow> string" where
  "logFileName lg now =
     directory lg @ ToLower (prefix lg) @ ''.'' @ Format ''2006-01-02'' now @
     (if maxFileSize lg > 0 then ''-'' @ Sprintf03d (subFileIndex lg) else []) @ ''.log''"

definition openOrRotateFile ::
  "file_engine \<Rightarrow> fs_world \<Rightarrow> go_time \<Rightarrow> int \<Rightarrow> go_error option \<times> file_engine \<times> fs_world" where
  "openOrRotateFile lg w now msgLen =
     (let dayOfNow = int (Day now);
          rotate = (fd lg = None \<or> dayOfNow \<noteq> dayOfFile lg \<or>
                    (maxFileSize lg > 0 \<and> currentFileSize lg + msgLen > maxFileSize lg) \<or>
                    (maxFileVaultSize lg > 0 \<and>
                     currentFileVaultSize lg + msgLen > maxFileVaultSize lg))
      in if \<not> rotate then (None, lg, w)
         else (case (case fd lg of
                       Some h \<Rightarrow> (lg\<lparr> fd := None \<rparr>, fs_call (FsClose h) (fs_call (FsSync h) w))
                     | None \<Rightarrow> (lg, w)) of
                 (lg1, w1) \<Rightarrow>
                   (let lg2 = lg1\<lparr> currentFileSize := 0 \<rparr>;
                        lg3 = (if maxFileSize lg2 > 0
                               then (if dayOfNow \<noteq> dayOfFile lg2 then lg2\<lparr> subFileIndex := 1 \<rparr>
                                     else lg2\<lparr> subFileIndex := subFileIndex lg2 + 1 \<rparr>)
                               else lg2)
                    in (case purgeFileVault lg3 w1 of
                          ((sz, perr), w2) \<Rightarrow>
                            (let lg4 = lg3\<lparr> currentFileVaultSize := sz \<rparr>
                             in (case MkdirAll (directory lg4) w2 of
                                   (Some err, w3) \<Rightarrow> (Some err, lg4, w3)
                                 | (None, w3) \<Rightarrow>
                                     (case OpenFile (logFileName lg4 now) w3 of
                                        ((f, err), w4) \<Rightarrow>
                                          (if err \<noteq> None then (err, lg4\<lparr> fd := f \<rparr>, w4)
                                           else (None, lg4\<lparr> fd := f, dayOfFile := dayOfNow \<rparr>,
                                                 w4)))))))))"

definition writeRAW :: "file_engine \<Rightarrow> fs_world \<Rightarrow> go_time \<Rightarrow> string \<Rightarrow> file_engine \<times> fs_world" where
  "writeRAW lg w now msg =
     (let msgLen = int (length msg)
      in (case openOrRotateFile lg w now (msgLen + newLineLen) of
            (Some err, lg1, w1) \<Rightarrow> (lg1, w1)
          | (None, lg1, w1) \<Rightarrow>
              (case WriteString (fd lg1) msg w1 of
                 (Some err, w2) \<Rightarrow> (lg1, w2)
               | (None, w2) \<Rightarrow>
                   (let lg2 = lg1\<lparr> currentFileSize := currentFileSize lg1 + msgLen,
                                   currentFileVaultSize := currentFileVaultSize lg1 + msgLen \<rparr>
                    in (case WriteString (fd lg2) newLine w2 of
                          (Some err, w3) \<Rightarrow> (lg2, w3)
                        | (None, w3) \<Rightarrow>
                            (lg2\<lparr> currentFileSize := currentFileSize lg2 + newLineLen,
                                 currentFileVaultSize := currentFileVaultSize lg2 + newLineLen \<rparr>,
                             w3))))))"

definition file_write ::
  "file_engine \<Rightarrow> fs_world \<Rightarrow> go_time \<Rightarrow> string \<Rightarrow> string \<Rightarrow> file_engine \<times> fs_world" where
  "file_write lg w now level msg =
     writeRAW lg w now
       (Format ''2006-01-02 15:04:05.000'' now @ '' ['' @ level @ '']: '' @ msg)"


section \<open>The logger\<close>

text \<open>
  A value passed to a log call is seen through package \<^verbatim>\<open>reflect\<close>: its kind, for a
  pointer whether it is nil and what it points to, and whether a type assertion to
  \<^verbatim>\<open>string\<close> or \<^verbatim>\<open>*string\<close> succeeds. A value of kind String carries a flag that says
  whether its dynamic type is the predeclared \<^verbatim>\<open>string\<close> (a defined string type has
  the same kind and another type); a pointer carries the same flag for its own type.
  A struct is named by a number, and \<^verbatim>\<open>json.Marshal\<close> is a parameter.
\<close>

datatype go_obj =
    VString bool string
  | VStruct nat
  | VPtr bool "go_obj option"
  | VOther

datatype reflect_Kind = KindString | KindStruct | KindPtr | KindOther

fun Kind :: "go_obj \<Rightarrow> reflect_Kind" where
  "Kind (VString exact s) = KindString"
| "Kind (VStruct n) = KindStruct"
| "Kind (VPtr exact target) = KindPtr"
| "Kind VOther = KindOther"

fun IsNil :: "go_obj \<Rightarrow> bool" where
  "IsNil (VPtr exact None) = True"
| "IsNil obj = False"

fun Elem :: "go_obj \<Rightarrow> go_obj" where
  "Elem (VPtr exact (Some target)) = target"
| "Elem obj = VOther"

text \<open>The type assertions \<^verbatim>\<open>obj.(string)\<close> and \<^verbatim>\<open>obj.(*string)\<close>; \<open>None\<close> is the panic.\<close>

fun assertString :: "go_obj \<Rightarrow> string option" where
  "assertString (VString True s) = Some s"
| "assertString obj = None"

fun assertStringPtr :: "go_obj \<Rightarrow> string option" where
  "assertStringPtr (VPtr True (Some (VString True s))) = Some s"
| "assertStringPtr obj = None"

definition parseObj ::
  "(go_obj \<Rightarrow> go_error + string) \<Rightarrow> go_obj \<Rightarrow> go_panic + (string \<times> bool \<times> bool)" where
  "parseObj json_Marshal obj =
     (case Kind obj of
        KindPtr \<Rightarrow>
          (if \<not> IsNil obj
           then (case Kind (Elem obj) of
                   KindString \<Rightarrow>
                     (case assertStringPtr obj of
                        None \<Rightarrow> Inl TypeAssertion
                      | Some s \<Rightarrow> Inr (s, False, True))
                 | KindStruct \<Rightarrow>
                     (case json_Marshal obj of
                        Inr b \<Rightarrow> Inr (b, True, True)
                      | Inl err \<Rightarrow> Inr ([], False, False))
                 | _ \<Rightarrow> Inr ([], False, False))
           else Inr ([], False, False))
      | KindString \<Rightarrow>
          (case assertString obj of
             None \<Rightarrow> Inl TypeAssertion
           | Some s \<Rightarrow> Inr (s, False, True))
      | KindStruct \<Rightarrow>
          (case json_Marshal obj of
             Inr b \<Rightarrow> Inr (b, True, True)
           | Inl err \<Rightarrow> Inr ([], False, False))
      | KindOther \<Rightarrow> Inr ([], False, False))"

definition addPayloadToJSON :: "string \<Rightarrow> go_time \<Rightarrow> string \<Rightarrow> string" where
  "addPayloadToJSON s now level =
     (if length s < 2 \<or> s ! 0 \<noteq> CHR ''{'' then s
      else take 1 s @
           ([CHR 0x22] @ ''timestamp'' @ [CHR 0x22] @ '':'' @ [CHR 0x22] @
            Format ''2006-01-02 15:04:05.000'' now @ [CHR 0x22] @ '','' @
            [CHR 0x22] @ ''level'' @ [CHR 0x22] @ '':'' @ [CHR 0x22] @ level @ [CHR 0x22]) @
           (if s ! 1 \<noteq> CHR ''}'' then '','' else []) @
           drop 1 s)"

text \<open>
  The logger holds its engines behind the \<^verbatim>\<open>Engine\<close> interface. An engine is named
  by a number and every call of one of its methods is recorded, in order, with its
  arguments: the record of calls is what a log call does to the engines.
\<close>

datatype logType = logTypeSuccess | logTypeError | logTypeWarning | logTypeInfo | logTypeDebug

datatype engine_call =
    CallSuccess nat go_time string bool bool
  | CallError nat go_time string bool
  | CallWarning nat go_time string bool
  | CallInfo nat go_time string bool
  | CallDebug nat go_time string bool

definition LogLevelQuiet :: nat where "LogLevelQuiet = 0"
definition LogLevelError :: nat where "LogLevelError = 1"
definition LogLevelWarning :: nat where "LogLevelWarning = 2"
definition LogLevelInfo :: nat where "LogLevelInfo = 3"
definition LogLevelDebug :: nat where "LogLevelDebug = 4"

record Logger =
  engines :: "nat list"
  logLevel :: nat
  debugLogLevel :: nat
  useLocalTime :: bool
  sendSuccessAtErrorLogLevel :: bool

record log_env =
  json_Marshal :: "go_obj \<Rightarrow> go_error + string"
  time_now :: go_time
  time_UTC :: "go_time \<Rightarrow> go_time"

definition getTimestamp :: "log_env \<Rightarrow> Logger \<Rightarrow> go_time" where
  "getTimestamp env lg =
     (let now = time_now env in if \<not> useLocalTime lg then time_UTC env now else now)"

definition log ::
  "log_env \<Rightarrow> Logger \<Rightarrow> engine_call list \<Rightarrow> go_obj \<Rightarrow> string \<Rightarrow> logType
     \<Rightarrow> go_panic + (Logger \<times> engine_call list)" where
  "log env lg calls obj jsonLevel type =
     (case parseObj (json_Marshal env) obj of
        Inl p \<Rightarrow> Inl p
      | Inr (msg, isJSON, ok) \<Rightarrow>
          if \<not> ok then Inr (lg, calls)
          else (let now = getTimestamp env lg;
                    (msg', raw) = (if isJSON then (addPayloadToJSON msg now jsonLevel, True)
                                   else (msg, False))
                in Inr (lg,
                     calls @
                     (case type of
                        logTypeSuccess \<Rightarrow>
                          map (\<lambda>engine. CallSuccess engine now msg' raw
                                          (sendSuccessAtErrorLogLevel lg)) (engines lg)
                      | logTypeError \<Rightarrow> map (\<lambda>engine. CallError engine now msg' raw) (engines lg)
                      | logTypeWarning \<Rightarrow>
                          map (\<lambda>engine. CallWarning engine now msg' raw) (engines lg)
                      | logTypeInfo \<Rightarrow> map (\<lambda>engine. CallInfo engine now msg' raw) (engines lg)
                      | logTypeDebug \<Rightarrow>
                          map (\<lambda>engine. CallDebug engine now msg' raw) (engines lg)))))"

definition Logger_Success ::
  "log_env \<Rightarrow> Logger \<Rightarrow> engine_call list \<Rightarrow> go_obj \<Rightarrow> go_panic + (Logger \<times> engine_call list)" where
  "Logger_Success env lg calls obj =
     (let minLogLevel = (if sendSuccessAtErrorLogLevel lg then LogLevelError else LogLevelInfo)
      in if logLevel lg < minLogLevel then Inr (lg, calls)
         else log env lg calls obj ''success'' logTypeSuccess)"

definition Logger_Error ::
  "log_env \<Rightarrow> Logger \<Rightarrow> engine_call list \<Rightarrow> go_obj \<Rightarrow> go_panic + (Logger \<times> engine_call list)" where
  "Logger_Error env lg calls obj =
     (if logLevel lg < LogLevelError then Inr (lg, calls)
      else log env lg calls obj ''error'' logTypeError)"

definition Logger_Warning ::
  "log_env \<Rightarrow> Logger \<Rightarrow> engine_call list \<Rightarrow> go_obj \<Rightarrow> go_panic + (Logger \<times> engine_call list)" where
  "Logger_Warning env lg calls obj =
     (if logLevel lg < LogLevelWarning then Inr (lg, calls)
      else log env lg calls obj ''warning'' logTypeWarning)"

definition Logger_Info ::
  "log_env \<Rightarrow> Logger \<Rightarrow> engine_call list \<Rightarrow> go_obj \<Rightarrow> go_panic + (Logger \<times> engine_call list)" where
  "Logger_Info env lg calls obj =
     (if logLevel lg < LogLevelInfo then Inr (lg, calls)
      else log env lg calls obj ''info'' logTypeInfo)"

definition Logger_Debug ::
  "log_env \<Rightarrow> Logger \<Rightarrow> engine_call list \<Rightarrow> nat \<Rightarrow> go_obj
     \<Rightarrow> go_panic + (Logger \<times> engine_call list)" where
  "Logger_Debug env lg calls level obj =
     (if logLevel lg < LogLevelDebug \<or> debugLogLevel lg < level then Inr (lg, calls)
      else log env lg calls obj ''debug'' logTypeDebug)"


section \<open>Sample inputs\<close>

text \<open>
  A syslog engine as \<^verbatim>\<open>NewEngine\<close> returns it (transport, format and queue size
  given), and a timestamp: 7 March 2024, 13:05:09.
\<close>

definition sampleSyslog :: "bool \<Rightarrow> bool \<Rightarrow> nat \<Rightarrow> syslog_engine" where
  "sampleSyslog tcp rfc5424 n =
     \<lparr> conn = None, appName = ''app'', serverAddress = ''127.0.0.1:514'', useTcp = tcp,
       tlsConfig = None, useRFC5424 = rfc5424, hostname = ''myhost'', pid = 42,
       queue = [], queueAvailEv = False, maxQueueSize = n, shutdownOnce = False,
       wg = 1, workerCtx = Some CtxActive, workerCancelCtx = Some CancelFunc \<rparr>"

definition sampleTime :: go_time where
  "sampleTime = \<lparr> Year = 2024, Month = March, Day = 7, Hour = 13, Minute = 5, Second = 9,
                  Nanosecond = 0 \<rparr>"


section \<open>Properties of the syslog engine\<close>

subsection \<open>Formatting\<close>

lemma Format_rfc3164:
  "Format ''Jan _2 15:04:05'' t =
     take 3 (monthString (Month t)) @ '' '' @ (if Day t < 10 then '' '' else []) @
     appendInt (int (Day t)) 0 @ '' '' @ appendInt (int (Hour t)) 2 @ '':'' @
     appendInt (int (Minute t)) 2 @ '':'' @ appendInt (int (Second t)) 2"
  by (simp add: Format.simps stdChunkAt_def HasPrefix_def std0x_def startsWithLowerCase_def)

lemma Format_rfc5424:
  "Format ''2006-02-01T15:04:05Z'' t =
     appendInt (Year t) 4 @ ''-'' @ appendInt (int (Day t)) 2 @ ''-'' @
     appendInt (int (monthNum (Month t))) 2 @ ''T'' @ appendInt (int (Hour t)) 2 @ '':'' @
     appendInt (int (Minute t)) 2 @ '':'' @ appendInt (int (Second t)) 2 @ ''Z''"
  by (simp add: Format.simps stdChunkAt_def HasPrefix_def std0x_def)

lemma lastQueued_queueMessage: "lastQueued (queueMessage lg m) = m"
  by (simp add: lastQueued_def queueMessage_def Let_def)

lemma maxQueueSize_queueMessage: "maxQueueSize (queueMessage lg m) = maxQueueSize lg"
  by (simp add: queueMessage_def Let_def)

lemma queue_queueMessage:
  "queue (queueMessage lg m) =
     (if maxQueueSize lg < length (queue lg) then tl (queue lg) else queue lg) @ [m]"
  by (cases "queue lg") (simp_all add: queueMessage_def Let_def)


lemma syslog_NewEngine_sample:
  "syslog_NewEngine
     \<lparr> os_Executable = Inr ''/usr/bin/app'', os_Getwd = Inr ''/srv'', os_Hostname = ''myhost'',
       os_Getpid = 42, filepath_Base = (\<lambda>p. ''app''), filepath_Ext = (\<lambda>p. []),
       filepath_ToSlash = (\<lambda>p. p), filepath_IsAbs = (\<lambda>p. True),
       filepath_Join = (\<lambda>a b. a @ ''/'' @ b), filepath_Clean = (\<lambda>p. p),
       filepath_Separator = CHR ''/'' \<rparr>
     \<lparr> AppName = [], Host = [], Port = 0, UseTcp = False, UseTls = False, UseRFC5424 = True,
       MaxMessageQueueSize = 2, TlsConfig = None \<rparr>
   = Inr (sampleSyslog False True 2)"
  by (simp add: syslog_NewEngine_def executableBaseName_def sampleSyslog_def Itoa_def
      utod.simps digitChar_def)

subsection \<open>The queue\<close>

lemma queue_enqueueAll_gen:
  "length (queue lg) \<le> Suc (maxQueueSize lg) \<Longrightarrow>
   queue (enqueueAll lg ms) =
     drop (length (queue lg @ ms) - Suc (maxQueueSize lg)) (queue lg @ ms)"
proof (induction ms arbitrary: lg)
  case Nil
  then show ?case by (simp add: enqueueAll_def)
next
  case (Cons m ms)
  let ?lg = "queueMessage lg m"
  have step: "enqueueAll lg (m # ms) = enqueueAll ?lg ms"
    by (simp add: enqueueAll_def)
  show ?case
  proof (cases "maxQueueSize lg < length (queue lg)")
    case True
    with Cons.prems have len: "length (queue lg) = Suc (maxQueueSize lg)" by simp
    then obtain x q where q: "queue lg = x # q" by (cases "queue lg") auto
    have q': "queue ?lg = q @ [m]" using True q by (simp add: queue_queueMessage)
    have "length (queue ?lg) \<le> Suc (maxQueueSize ?lg)"
      using len q q' by (simp add: maxQueueSize_queueMessage)
    from Cons.IH [OF this] show ?thesis
      using len q q' by (simp add: step maxQueueSize_queueMessage)
  next
    case False
    have q': "queue ?lg = queue lg @ [m]" using False by (simp add: queue_queueMessage)
    have "length (queue ?lg) \<le> Suc (maxQueueSize ?lg)"
      using False q' by (simp add: maxQueueSize_queueMessage)
    from Cons.IH [OF this] show ?thesis
      using q' by (simp add: step maxQueueSize_queueMessage)
  qed
qed

lemma queue_enqueueAll:
  "queue lg = [] \<Longrightarrow>
   queue (enqueueAll lg ms) = drop (length ms - Suc (maxQueueSize lg)) ms"
  using queue_enqueueAll_gen [of lg ms] by simp


text \<open>
  C1. The claim: after any enqueue the queue holds at most \<open>maxQueueSize\<close> messages,
  and after more than that many enqueues exactly the last \<open>maxQueueSize\<close> of them.
  \<^verbatim>\<open>queueMessage\<close> removes the front message only when the queue already holds more
  than \<open>maxQueueSize\<close> messages, so the queue grows to \<open>maxQueueSize + 1\<close>: with a
  capacity of 2, four enqueues leave the last three messages on the queue
  (\<open>queue_enqueueAll\<close> gives the general form).
\<close>

theorem queueMessage_keeps_one_more:
  "queue (enqueueAll (sampleSyslog False False 2) [''m1'', ''m2'', ''m3'', ''m4''])
     = [''m2'', ''m3'', ''m4'']
   \<and> \<not> length (queue (enqueueAll (sampleSyslog False False 2) [''m1'', ''m2'', ''m3'', ''m4'']))
       \<le> maxQueueSize (sampleSyslog False False 2)"
  by (simp add: enqueueAll_def queueMessage_def sampleSyslog_def)


subsection \<open>Line endings\<close>

lemma trailingNewlines_after_space:
  "trailingNewlines (p @ CHR '' '' # m) = trailingNewlines m"
  by (simp add: trailingNewlines_def takeWhile_tail newline_def)

lemma HasSuffix_newline: "HasSuffix s [newline] \<longleftrightarrow> s \<noteq> [] \<and> last s = newline"
proof (cases s rule: rev_cases)
  case Nil
  then show ?thesis by (simp add: HasSuffix_def)
next
  case (snoc ys y)
  then show ?thesis by (simp add: HasSuffix_def)
qed

lemma trailingNewlines_snoc:
  "trailingNewlines (s @ [c]) = (if c = newline then Suc (trailingNewlines s) else 0)"
  by (simp add: trailingNewlines_def)

lemma trailingNewlines_suffix:
  assumes "HasSuffix msg [newline]"
  shows "1 \<le> trailingNewlines msg"
    and "trailingNewlines (TrimSuffix msg [newline]) = trailingNewlines msg - 1"
proof -
  from assms obtain ys where msg: "msg = ys @ [newline]"
    by (cases msg rule: rev_cases) (auto simp: HasSuffix_newline)
  show "1 \<le> trailingNewlines msg"
    unfolding msg by (simp add: trailingNewlines_snoc)
  have "TrimSuffix msg [newline] = ys"
    using assms by (simp add: TrimSuffix_def msg)
  then show "trailingNewlines (TrimSuffix msg [newline]) = trailingNewlines msg - 1"
    unfolding msg by (simp add: trailingNewlines_snoc)
qed

lemma trailingNewlines_no_suffix:
  assumes "\<not> HasSuffix msg [newline]"
  shows "trailingNewlines msg = 0" and "TrimSuffix msg [newline] = msg"
proof -
  show "trailingNewlines msg = 0"
    using assms
    by (cases msg rule: rev_cases) (auto simp: HasSuffix_newline trailingNewlines_def)
  show "TrimSuffix msg [newline] = msg"
    using assms by (simp add: TrimSuffix_def)
qed

lemma trailingNewlines_normalised:
  "trailingNewlines
     (if tcp then (if \<not> HasSuffix msg [newline] then msg @ [newline] else msg)
      else TrimSuffix msg [newline])
   = (if tcp then max 1 (trailingNewlines msg) else trailingNewlines msg - 1)"
proof (cases "HasSuffix msg [newline]")
  case True
  from trailingNewlines_suffix [OF True] True show ?thesis by simp
next
  case False
  from trailingNewlines_no_suffix [OF False] False show ?thesis
    by (simp add: trailingNewlines_snoc)
qed

lemma trailingNewlines_writeString:
  "trailingNewlines (lastQueued (writeString lg facility severity now msg raw)) =
     (if useTcp lg then max 1 (trailingNewlines msg) else trailingNewlines msg - 1)"
proof -
  let ?m = "if useTcp lg then (if \<not> HasSuffix msg [newline] then msg @ [newline] else msg)
            else TrimSuffix msg [newline]"
  have "\<exists>p. lastQueued (writeString lg facility severity now msg raw) = p @ CHR '' '' # ?m"
  proof (cases "useRFC5424 lg")
    case True
    have "lastQueued (writeString lg facility severity now msg raw) =
       (''<'' @ Itoa (facility * 8 + severity) @ ''>1 '' @ Format ''2006-02-01T15:04:05Z'' now @
        '' '' @ hostname lg @ '' '' @ appName lg @ '' '' @ Itoa (pid lg) @ '' - -'') @
       CHR '' '' # ?m"
      using True by (simp add: writeString_def Let_def lastQueued_queueMessage)
    then show ?thesis by blast
  next
    case False
    have "lastQueued (writeString lg facility severity now msg raw) =
       (''<'' @ Itoa (facility * 8 + severity) @ ''>'' @ Format ''Jan _2 15:04:05'' now @
        '' '' @ hostname lg) @ CHR '' '' # ?m"
      using False by (simp add: writeString_def Let_def lastQueued_queueMessage)
    then show ?thesis by blast
  qed
  then obtain p where "lastQueued (writeString lg facility severity now msg raw) = p @ CHR '' '' # ?m"
    by blast
  then show ?thesis
    by (simp only: trailingNewlines_after_space trailingNewlines_normalised)
qed

text \<open>
  C2, as amended. The run of newlines that ends the queued payload is the one of the
  message after \<^verbatim>\<open>writeString\<close> has added one newline when there was none (stream
  transport) or removed one when there was one (datagram transport): at least one
  newline on TCP and exactly one when the message carries at most one; on UDP one
  fewer than the message carries, so none when it carries at most one.
\<close>

theorem writeString_trailing_newlines:
  "trailingNewlines (lastQueued (writeString lg facility severity now msg raw)) =
     (if useTcp lg then max 1 (trailingNewlines msg) else trailingNewlines msg - 1)"
  by (rule trailingNewlines_writeString)

theorem writeString_trailing_newlines_witness:
  "trailingNewlines
     (lastQueued (writeString (sampleSyslog True False 4) facilityUser severityError sampleTime
        (''hello'' @ [newline]) False)) = 1
   \<and> trailingNewlines
     (lastQueued (writeString (sampleSyslog False False 4) facilityUser severityError sampleTime
        (''hello'' @ [newline]) False)) = 0"
  using writeString_trailing_newlines [of "sampleSyslog True False 4" facilityUser severityError
      sampleTime "''hello'' @ [newline]" False]
    writeString_trailing_newlines [of "sampleSyslog False False 4" facilityUser severityError
      sampleTime "''hello'' @ [newline]" False]
  by (simp add: sampleSyslog_def trailingNewlines_def newline_def)

text \<open>
  C2, as stated, fails on a message that ends in two newlines: the TCP payload keeps
  both, and the UDP payload keeps one.
\<close>

theorem writeString_trailing_newlines_counterexample:
  "trailingNewlines
     (lastQueued (writeString (sampleSyslog True False 4) facilityUser severityError sampleTime
        (''hello'' @ [newline, newline]) False)) \<noteq> 1
   \<and> trailingNewlines
     (lastQueued (writeString (sampleSyslog False False 4) facilityUser severityError sampleTime
        (''hello'' @ [newline, newline]) False)) \<noteq> 0"
  using trailingNewlines_writeString [of "sampleSyslog True False 4" facilityUser severityError
      sampleTime "''hello'' @ [newline, newline]" False]
    trailingNewlines_writeString [of "sampleSyslog False False 4" facilityUser severityError
      sampleTime "''hello'' @ [newline, newline]" False]
  by (simp add: sampleSyslog_def trailingNewlines_def newline_def)

subsection \<open>The wire format\<close>

lemma lastQueued_writeString_rfc5424:
  "useRFC5424 lg \<Longrightarrow>
   lastQueued (writeString lg facility severity now msg raw) =
     ''<'' @ Itoa (facility * 8 + severity) @ ''>1 '' @
     appendInt (Year now) 4 @ ''-'' @ appendInt (int (Day now)) 2 @ ''-'' @
     appendInt (int (monthNum (Month now))) 2 @ ''T'' @
     appendInt (int (Hour now)) 2 @ '':'' @ appendInt (int (Minute now)) 2 @ '':'' @
     appendInt (int (Second now)) 2 @ ''Z'' @
     '' '' @ hostname lg @ '' '' @ appName lg @ '' '' @ Itoa (pid lg) @ '' - - '' @
     (if useTcp lg then (if HasSuffix msg [newline] then msg else msg @ [newline])
      else TrimSuffix msg [newline])"
  by (simp add: writeString_def Let_def lastQueued_queueMessage Format_rfc5424)

text \<open>
  C5. In structured mode the queued text is \<^verbatim>\<open><priority>1\<close>, a space, the timestamp
  with the year, then the day, then the month (each of day and month on two digits),
  \<^verbatim>\<open>T\<close>, the time and \<^verbatim>\<open>Z\<close>, then the host name, the application name, the process
  id, \<^verbatim>\<open>- -\<close> and the message (with its line ending set for the transport), each
  separated by one space.
\<close>

theorem writeString_rfc5424_layout:
  "useRFC5424 lg \<Longrightarrow>
   lastQueued (writeString lg facility severity now msg raw) =
     ''<'' @ Itoa (facility * 8 + severity) @ ''>1 '' @
     appendInt (Year now) 4 @ ''-'' @ appendInt (int (Day now)) 2 @ ''-'' @
     appendInt (int (monthNum (Month now))) 2 @ ''T'' @
     appendInt (int (Hour now)) 2 @ '':'' @ appendInt (int (Minute now)) 2 @ '':'' @
     appendInt (int (Second now)) 2 @ ''Z'' @
     '' '' @ hostname lg @ '' '' @ appName lg @ '' '' @ Itoa (pid lg) @ '' - - '' @
     (if useTcp lg then (if HasSuffix msg [newline] then msg else msg @ [newline])
      else TrimSuffix msg [newline])"
  by (rule lastQueued_writeString_rfc5424)

theorem writeString_rfc5424_layout_witness:
  "useRFC5424 (sampleSyslog False True 4)
   \<and> lastQueued (writeString (sampleSyslog False True 4) 1 3 sampleTime ''hello'' False) =
       ''<11>1 2024-07-03T13:05:09Z myhost app 42 - - hello''"
  using writeString_rfc5424_layout [of "sampleSyslog False True 4" 1 3 sampleTime "''hello''" False]
  by (simp add: sampleSyslog_def sampleTime_def Itoa_def appendInt_def utod.simps digitChar_def
      TrimSuffix_def HasSuffix_def newline_def)


subsection \<open>Priorities\<close>

lemma HasPrefix_append: "HasPrefix (p @ r) p"
  by (simp add: HasPrefix_def)

lemma HasPrefix_writeString:
  "HasPrefix (lastQueued (writeString lg facility severity now msg raw))
     (''<'' @ Itoa (facility * 8 + severity) @ ''>'')"
proof -
  have "\<exists>r. lastQueued (writeString lg facility severity now msg raw) =
          (''<'' @ Itoa (facility * 8 + severity) @ ''>'') @ r"
    by (cases "useRFC5424 lg") (simp_all add: writeString_def Let_def lastQueued_queueMessage)
  then obtain r where "lastQueued (writeString lg facility severity now msg raw) =
          (''<'' @ Itoa (facility * 8 + severity) @ ''>'') @ r" by blast
  then show ?thesis by (simp only: HasPrefix_append)
qed

lemma Itoa_priorities:
  "Itoa 11 = ''11''" "Itoa 12 = ''12''" "Itoa 14 = ''14''" "Itoa 15 = ''15''"
  by (simp_all add: Itoa_def utod.simps digitChar_def)

lemma syslog_priorities:
  "HasPrefix (lastQueued (syslog_Error lg now msg raw)) ''<11>''"
  "HasPrefix (lastQueued (syslog_Warning lg now msg raw)) ''<12>''"
  "HasPrefix (lastQueued (syslog_Info lg now msg raw)) ''<14>''"
  "HasPrefix (lastQueued (syslog_Debug lg now msg raw)) ''<15>''"
  "HasPrefix (lastQueued (syslog_Success lg now msg raw flag))
     (if flag then ''<11>'' else ''<14>'')"
  using HasPrefix_writeString [of lg facilityUser severityError now msg raw]
    HasPrefix_writeString [of lg facilityUser severityWarning now msg raw]
    HasPrefix_writeString [of lg facilityUser severityInformational now msg raw]
    HasPrefix_writeString [of lg facilityUser severityDebug now msg raw]
  by (simp_all add: syslog_Error_def syslog_Warning_def syslog_Info_def syslog_Debug_def
      syslog_Success_def facilityUser_def severityError_def severityWarning_def
      severityInformational_def severityDebug_def Itoa_priorities)

text \<open>
  C6. Every method passes facility 1 (user level) and its severity to
  \<^verbatim>\<open>writeString\<close>, which opens the payload with \<^verbatim>\<open><facility*8 + severity>\<close>: error 3,
  warning 4, informational 6, debug 7, and for a success message 3 when success is
  sent at the error level and 6 otherwise. So the payloads open with \<^verbatim>\<open><11>\<close>,
  \<^verbatim>\<open><12>\<close>, \<^verbatim>\<open><14>\<close>, \<^verbatim>\<open><15>\<close>, and \<^verbatim>\<open><11>\<close> or \<^verbatim>\<open><14>\<close> for success.
\<close>

theorem syslog_priority_values:
  "facilityUser = 1 \<and> severityError = 3 \<and> severityWarning = 4 \<and>
   severityInformational = 6 \<and> severityDebug = 7 \<and>
   HasPrefix (lastQueued (writeString lg facility severity now msg raw))
     (''<'' @ Itoa (facility * 8 + severity) @ ''>'') \<and>
   syslog_Error lg now msg raw = writeString lg facilityUser severityError now msg raw \<and>
   syslog_Warning lg now msg raw = writeString lg facilityUser severityWarning now msg raw \<and>
   syslog_Info lg now msg raw = writeString lg facilityUser severityInformational now msg raw \<and>
   syslog_Debug lg now msg raw = writeString lg facilityUser severityDebug now msg raw \<and>
   syslog_Success lg now msg raw flag =
     writeString lg facilityUser (if flag then severityError else severityInformational)
       now msg raw \<and>
   HasPrefix (lastQueued (syslog_Error lg now msg raw)) ''<11>'' \<and>
   HasPrefix (lastQueued (syslog_Warning lg now msg raw)) ''<12>'' \<and>
   HasPrefix (lastQueued (syslog_Info lg now msg raw)) ''<14>'' \<and>
   HasPrefix (lastQueued (syslog_Debug lg now msg raw)) ''<15>'' \<and>
   HasPrefix (lastQueued (syslog_Success lg now msg raw flag))
     (if flag then ''<11>'' else ''<14>'')"
  using syslog_priorities [of lg now msg raw] syslog_priorities(5) [of lg now msg raw flag]
    HasPrefix_writeString [of lg facility severity now msg raw]
  by (simp add: syslog_Error_def syslog_Warning_def syslog_Info_def syslog_Debug_def
      syslog_Success_def facilityUser_def severityError_def severityWarning_def
      severityInformational_def severityDebug_def)

theorem syslog_priority_values_witness:
  "lastQueued (syslog_Error (sampleSyslog False False 4) sampleTime ''disk full'' False)
     = ''<11>Mar  7 13:05:09 myhost disk full''
   \<and> HasPrefix (lastQueued (syslog_Error (sampleSyslog False False 4) sampleTime ''disk full'' False))
       ''<11>''"
proof -
  have "lastQueued (syslog_Error (sampleSyslog False False 4) sampleTime ''disk full'' False)
     = ''<11>Mar  7 13:05:09 myhost disk full''"
    by (simp add: syslog_Error_def writeString_def Let_def lastQueued_queueMessage
        Format_rfc3164 sampleSyslog_def sampleTime_def facilityUser_def severityError_def
        Itoa_def appendInt_def utod.simps digitChar_def TrimSuffix_def HasSuffix_def newline_def)
  moreover have "HasPrefix
      (lastQueued (syslog_Error (sampleSyslog False False 4) sampleTime ''disk full'' False))
      ''<11>''"
    using syslog_priority_values
      [of "sampleSyslog False False 4" 1 3 sampleTime "''disk full''" False False]
    by blast
  ultimately show ?thesis by (rule conjI)
qed


end
